theory Spec2Isabelle
  imports Complex_Main
begin

section \<open>Rectangles (pygame.Rect)\<close>

text \<open>
  The engine of \<^verbatim>\<open>collision.py\<close> works on \<^verbatim>\<open>pygame.Rect\<close> values: four integers
  \<^verbatim>\<open>x, y, w, h\<close> with the y axis pointing down the screen. pygame is a library outside
  the repository; the attributes the engine reads and writes are modelled after pygame's
  behaviour: \<^verbatim>\<open>left = x\<close>, \<^verbatim>\<open>top = y\<close>, \<^verbatim>\<open>right = x + w\<close>, \<^verbatim>\<open>bottom = y + h\<close>,
  \<^verbatim>\<open>center = (x + (w >> 1), y + (h >> 1))\<close>, and assigning an edge moves the rectangle
  without resizing it. The coordinates are C integers in pygame and unbounded integers
  here: the rectangles of a scene are taken as they are given, and overflow in the sums
  of their fields is not modelled. Where the engine itself builds a rectangle from
  computed values, the wrap-around of the C integers is written out (\<open>pg_Rect\<close> below).
\<close>

record rect =
  rx :: int
  ry :: int
  rw :: int
  rh :: int

definition Rect :: "int \<Rightarrow> int \<Rightarrow> int \<Rightarrow> int \<Rightarrow> rect" where
  "Rect a b c d = \<lparr>rx = a, ry = b, rw = c, rh = d\<rparr>"

text \<open>
  The constructor call \<^verbatim>\<open>pg.Rect(x, y, w, h)\<close> on Python integers: pygame stores each
  argument in a C \<^verbatim>\<open>int\<close> of 32 bits, and a value outside its range wraps around
  (\<open>2147483647 + 2000\<close> is stored as \<open>-2147481649\<close>). \<open>fits_c_int\<close> says that a value
  is stored unchanged.
\<close>

definition c_int :: "int \<Rightarrow> int" where
  "c_int n = (n + 2147483648) mod 4294967296 - 2147483648"

definition fits_c_int :: "int \<Rightarrow> bool" where
  "fits_c_int n = (- 2147483648 \<le> n \<and> n \<le> 2147483647)"

definition pg_Rect :: "int \<Rightarrow> int \<Rightarrow> int \<Rightarrow> int \<Rightarrow> rect" where
  "pg_Rect a b c d = Rect (c_int a) (c_int b) (c_int c) (c_int d)"

definition rect_left :: "rect \<Rightarrow> int" where
  "rect_left r = rx r"

definition rect_top :: "rect \<Rightarrow> int" where
  "rect_top r = ry r"

definition rect_right :: "rect \<Rightarrow> int" where
  "rect_right r = rx r + rw r"

definition rect_bottom :: "rect \<Rightarrow> int" where
  "rect_bottom r = ry r + rh r"

definition rect_size :: "rect \<Rightarrow> int \<times> int" where
  "rect_size r = (rw r, rh r)"

definition rect_center :: "rect \<Rightarrow> int \<times> int" where
  "rect_center r = (rx r + rw r div 2, ry r + rh r div 2)"

definition rect_topleft :: "rect \<Rightarrow> int \<times> int" where
  "rect_topleft r = (rx r, ry r)"

definition rect_topright :: "rect \<Rightarrow> int \<times> int" where
  "rect_topright r = (rx r + rw r, ry r)"

definition rect_bottomright :: "rect \<Rightarrow> int \<times> int" where
  "rect_bottomright r = (rx r + rw r, ry r + rh r)"

definition rect_bottomleft :: "rect \<Rightarrow> int \<times> int" where
  "rect_bottomleft r = (rx r, ry r + rh r)"

text \<open>Assignments \<^verbatim>\<open>r.bottom = v\<close>, \<^verbatim>\<open>r.left = v\<close>, \<^verbatim>\<open>r.top = v\<close>, \<^verbatim>\<open>r.right = v\<close>.\<close>

definition set_bottom :: "int \<Rightarrow> rect \<Rightarrow> rect" where
  "set_bottom v r = r\<lparr>ry := v - rh r\<rparr>"

definition set_left :: "int \<Rightarrow> rect \<Rightarrow> rect" where
  "set_left v r = r\<lparr>rx := v\<rparr>"

definition set_top :: "int \<Rightarrow> rect \<Rightarrow> rect" where
  "set_top v r = r\<lparr>ry := v\<rparr>"

definition set_right :: "int \<Rightarrow> rect \<Rightarrow> rect" where
  "set_right v r = r\<lparr>rx := v - rw r\<rparr>"

text \<open>
  \<^verbatim>\<open>Rect.colliderect\<close>: a rectangle of zero width or height collides with nothing;
  otherwise the two rectangles, each normalised by \<^verbatim>\<open>MIN\<close>/\<^verbatim>\<open>MAX\<close> of its two edges,
  must overlap strictly on both axes (touching edges do not collide).
\<close>

definition colliderect :: "rect \<Rightarrow> rect \<Rightarrow> bool" where
  "colliderect A B =
     (if rw A = 0 \<or> rh A = 0 \<or> rw B = 0 \<or> rh B = 0 then False
      else min (rx A) (rx A + rw A) < max (rx B) (rx B + rw B) \<and>
           min (ry A) (ry A + rh A) < max (ry B) (ry B + rh B) \<and>
           max (rx A) (rx A + rw A) > min (rx B) (rx B + rw B) \<and>
           max (ry A) (ry A + rh A) > min (ry B) (ry B + rh B))"

text \<open>
  \<^verbatim>\<open>Rect.contains\<close>: the argument lies completely inside the rectangle.
\<close>

definition contains :: "rect \<Rightarrow> rect \<Rightarrow> bool" where
  "contains A B =
     (rx A \<le> rx B \<and> ry A \<le> ry B \<and>
      rx A + rw A \<ge> rx B + rw B \<and> ry A + rh A \<ge> ry B + rh B \<and>
      rx A + rw A > rx B \<and> ry A + rh A > ry B)"

section \<open>Angles (pygame.math.Vector2)\<close>

text \<open>
  \<^verbatim>\<open>Vector2.angle_to\<close> is the difference of the two \<^verbatim>\<open>atan2\<close> values, converted to
  degrees; Python's \<^verbatim>\<open>%\<close> then brings it into \<open>[0, 360)\<close>. pygame computes in double
  precision. The model computes the same expressions over the real numbers: rounding is
  not modelled, so a statement below about all rectangles is a statement about the exact
  angles. The coordinates are integers converted to floats, so a zero is never negative.
\<close>

definition atan2 :: "real \<Rightarrow> real \<Rightarrow> real" where
  "atan2 y x =
     (if 0 < x then arctan (y / x)
      else if x < 0 \<and> 0 \<le> y then arctan (y / x) + pi
      else if x < 0 \<and> y < 0 then arctan (y / x) - pi
      else if 0 < y then pi / 2
      else if y < 0 then - (pi / 2)
      else 0)"

definition RAD2DEG :: "real \<Rightarrow> real" where
  "RAD2DEG a = a * 180 / pi"

type_synonym Vector2 = "real \<times> real"

definition angle_to :: "Vector2 \<Rightarrow> Vector2 \<Rightarrow> real" where
  "angle_to self other = RAD2DEG (atan2 (snd other) (fst other) - atan2 (snd self) (fst self))"

text \<open>Python's \<^verbatim>\<open>a % m\<close> on floats, for a positive \<open>m\<close>: the result is in \<open>[0, m)\<close>.\<close>

definition py_mod :: "real \<Rightarrow> real \<Rightarrow> real" where
  "py_mod a m = a - m * of_int \<lfloor>a / m\<rfloor>"

definition FULL_ROTATION :: real where
  "FULL_ROTATION = 360"

section \<open>The directional classifier\<close>

datatype side = Bottom | Left | Top | Right

text \<open>
  The four spokes of \<^verbatim>\<open>_checkCollisionDirection\<close>: the vectors from the corners of the
  static rectangle to its centre (\<^verbatim>\<open>vec_M00\<close>, \<^verbatim>\<open>vec_M10\<close>, \<^verbatim>\<open>vec_M11\<close>, \<^verbatim>\<open>vec_M01\<close>).
\<close>

definition vec_M00 :: "rect \<Rightarrow> Vector2" where
  "vec_M00 s = (case (rect_center s, rect_topleft s) of
     ((x, y), S00) \<Rightarrow> (of_int (x - fst S00), of_int (y - snd S00)))"

definition vec_M10 :: "rect \<Rightarrow> Vector2" where
  "vec_M10 s = (case (rect_center s, rect_topright s) of
     ((x, y), S10) \<Rightarrow> (of_int (x - fst S10), of_int (y - snd S10)))"

definition vec_M11 :: "rect \<Rightarrow> Vector2" where
  "vec_M11 s = (case (rect_center s, rect_bottomright s) of
     ((x, y), S11) \<Rightarrow> (of_int (x - fst S11), of_int (y - snd S11)))"

definition vec_M01 :: "rect \<Rightarrow> Vector2" where
  "vec_M01 s = (case (rect_center s, rect_bottomleft s) of
     ((x, y), S01) \<Rightarrow> (of_int (x - fst S01), of_int (y - snd S01)))"

text \<open>The boundary angles, measured from the top-left spoke (\<^verbatim>\<open>origin = vec_M00\<close>).\<close>

definition angle_00 :: "rect \<Rightarrow> real" where
  "angle_00 s = py_mod (angle_to (vec_M00 s) (vec_M00 s)) FULL_ROTATION"

definition angle_10 :: "rect \<Rightarrow> real" where
  "angle_10 s = py_mod (angle_to (vec_M00 s) (vec_M10 s)) FULL_ROTATION"

definition angle_11 :: "rect \<Rightarrow> real" where
  "angle_11 s = py_mod (angle_to (vec_M00 s) (vec_M11 s)) FULL_ROTATION"

definition angle_01 :: "rect \<Rightarrow> real" where
  "angle_01 s = py_mod (angle_to (vec_M00 s) (vec_M01 s)) FULL_ROTATION"

text \<open>The vector from the mover's centre to the static centre, and its angle.\<close>

definition displacement :: "rect \<Rightarrow> rect \<Rightarrow> Vector2" where
  "displacement m s = (case (rect_center s, rect_center m) of
     ((x, y), (u, v)) \<Rightarrow> (of_int (x - u), of_int (y - v)))"

definition angle :: "rect \<Rightarrow> rect \<Rightarrow> real" where
  "angle m s = py_mod (angle_to (vec_M00 s) (displacement m s)) FULL_ROTATION"

definition isCollideBottom :: "rect \<Rightarrow> rect \<Rightarrow> bool" where
  "isCollideBottom m s = (angle_00 s < angle m s \<and> angle m s < angle_10 s)"

definition isCollideLeft :: "rect \<Rightarrow> rect \<Rightarrow> bool" where
  "isCollideLeft m s = (angle_10 s < angle m s \<and> angle m s < angle_11 s)"

definition isCollideTop :: "rect \<Rightarrow> rect \<Rightarrow> bool" where
  "isCollideTop m s = (angle_11 s < angle m s \<and> angle m s < angle_01 s)"

definition isCollideRight :: "rect \<Rightarrow> rect \<Rightarrow> bool" where
  "isCollideRight m s = (angle_01 s < angle m s)"

text \<open>
  \<^verbatim>\<open>_checkCollisionDirection(moving, static)\<close> on the two rectangles. \<open>None\<close> is
  Python's \<^verbatim>\<open>None\<close>: the function falls off its end when the rectangles do not collide
  and when no test of the chain holds.
\<close>

definition checkCollisionDirection :: "rect \<Rightarrow> rect \<Rightarrow> side option" where
  "checkCollisionDirection m s =
     (if colliderect m s then
        (if isCollideBottom m s then Some Bottom
         else if isCollideLeft m s then Some Left
         else if isCollideTop m s then Some Top
         else if isCollideRight m s then Some Right
         else None)
      else None)"

section \<open>Scene entities\<close>

text \<open>
  Every scene object is a \<^verbatim>\<open>GameObject\<close> with a \<^verbatim>\<open>rect\<close>. The engine reads the rectangle of
  walls, platforms, spikes and bosses only; moving platforms carry their per-frame
  displacement \<^verbatim>\<open>dx, dy\<close>, switches the flag \<^verbatim>\<open>isOn\<close> and doors the flag
  \<^verbatim>\<open>isClosed\<close>.
\<close>

record entity =
  rect :: rect

record mplatform = entity +
  dx :: real
  dy :: real

record switch = entity +
  isOn :: bool

record door = entity +
  isClosed :: bool

text \<open>
  Modelled from the spec: the physics component of a player
  (\<^verbatim>\<open>xcape.components.physics\<close>) is not under \<^verbatim>\<open>src/\<close>. The engine reads and
  assigns \<^verbatim>\<open>physics.velocity.x\<close> and \<^verbatim>\<open>physics.velocity.y\<close> directly (floats, here reals),
  and it calls \<^verbatim>\<open>addVelocityX\<close>, \<^verbatim>\<open>addVelocityY\<close>, \<^verbatim>\<open>addDisplacementX\<close> and
  \<^verbatim>\<open>addDisplacementY\<close> with a name and an amount. The spec calls these an instantaneous
  velocity impulse and an addition to the displacement accumulator; the model records each
  call, in order, as a request to the component and says nothing on what the component
  does with it later.
\<close>

datatype request =
    AddVelocityX string real
  | AddVelocityY string real
  | AddDisplacementX string real
  | AddDisplacementY string real

record physics =
  velocity_x :: real
  velocity_y :: real
  requests :: "request list"

record player = entity +
  physics :: physics
  isOnGround :: bool
  num :: int
  keybinds :: "string \<rightharpoonup> int"

definition addVelocityX :: "string \<Rightarrow> real \<Rightarrow> player \<Rightarrow> player" where
  "addVelocityX name a p =
     p\<lparr>physics := (physics p)\<lparr>requests := requests (physics p) @ [AddVelocityX name a]\<rparr>\<rparr>"

definition addVelocityY :: "string \<Rightarrow> real \<Rightarrow> player \<Rightarrow> player" where
  "addVelocityY name a p =
     p\<lparr>physics := (physics p)\<lparr>requests := requests (physics p) @ [AddVelocityY name a]\<rparr>\<rparr>"

definition addDisplacementX :: "string \<Rightarrow> real \<Rightarrow> player \<Rightarrow> player" where
  "addDisplacementX name a p =
     p\<lparr>physics := (physics p)\<lparr>requests := requests (physics p) @ [AddDisplacementX name a]\<rparr>\<rparr>"

definition addDisplacementY :: "string \<Rightarrow> real \<Rightarrow> player \<Rightarrow> player" where
  "addDisplacementY name a p =
     p\<lparr>physics := (physics p)\<lparr>requests := requests (physics p) @ [AddDisplacementY name a]\<rparr>\<rparr>"

text \<open>
  Modelled from the spec: \<^verbatim>\<open>Switch.turnOff\<close> is not under \<^verbatim>\<open>src/\<close>; the spec says it
  turns the switch off.
\<close>

definition turnOff :: "switch \<Rightarrow> switch" where
  "turnOff s = s\<lparr>isOn := False\<rparr>"

record scene =
  players :: "player list"
  walls :: "entity list"
  sPlatforms :: "entity list"
  dPlatforms :: "entity list"
  mPlatforms :: "mplatform list"
  switches :: "switch list"
  doors :: "door list"
  spikes :: "entity list"
  bosses :: "entity list"
  scene_rect :: rect

text \<open>
  Modelled from the spec: \<^verbatim>\<open>GameObject.messageScene\<close> and the audio component are not
  under \<^verbatim>\<open>src/\<close>. A message to the scene (\<^verbatim>\<open>"death"\<close> with a player number, or
  \<^verbatim>\<open>"complete"\<close>) is a fire-and-forget notification: the model appends it to the list of
  messages sent. Of the audio component the engine assigns \<^verbatim>\<open>audio.state\<close> and calls
  \<^verbatim>\<open>audio.update()\<close>; the latter is a parameter of \<open>update\<close> below.
\<close>

datatype message = Death int | Complete

record CollisionEngine =
  scene :: scene
  audio_state :: string
  messages :: "message list"

definition messageScene :: "message \<Rightarrow> CollisionEngine \<Rightarrow> CollisionEngine" where
  "messageScene msg e = e\<lparr>messages := messages e @ [msg]\<rparr>"

text \<open>\<^verbatim>\<open>pygame.sprite.collide_rect\<close> and \<^verbatim>\<open>pygame.sprite.spritecollide(sprite, group, False)\<close>.\<close>

definition collide_rect :: "'a entity_scheme \<Rightarrow> 'b entity_scheme \<Rightarrow> bool" where
  "collide_rect l r = colliderect (rect l) (rect r)"

definition spritecollide :: "'a entity_scheme \<Rightarrow> 'b entity_scheme list \<Rightarrow> 'b entity_scheme list" where
  "spritecollide sprite grp = filter (\<lambda>s. colliderect (rect sprite) (rect s)) grp"

section \<open>The Basic Resolver\<close>

text \<open>The body of the loop of \<^verbatim>\<open>_resolveBasicCollision\<close>, for one wall of \<^verbatim>\<open>hits\<close>.\<close>

definition resolve_hit :: "player \<Rightarrow> 'a entity_scheme \<Rightarrow> player" where
  "resolve_hit moving wall =
     (case checkCollisionDirection (rect moving) (rect wall) of
        Some Bottom \<Rightarrow>
          moving\<lparr>rect := set_bottom (rect_top (rect wall)) (rect moving),
                 physics := (physics moving)\<lparr>velocity_y := 0\<rparr>,
                 isOnGround := True\<rparr>
      | Some Left \<Rightarrow>
          moving\<lparr>rect := set_left (rect_right (rect wall)) (rect moving),
                 physics := (physics moving)\<lparr>velocity_x := 0\<rparr>\<rparr>
      | Some Top \<Rightarrow>
          moving\<lparr>rect := set_top (rect_bottom (rect wall)) (rect moving),
                 physics := (physics moving)\<lparr>velocity_y := 0\<rparr>\<rparr>
      | Some Right \<Rightarrow>
          moving\<lparr>rect := set_right (rect_left (rect wall)) (rect moving),
                 physics := (physics moving)\<lparr>velocity_x := 0\<rparr>\<rparr>
      | None \<Rightarrow> moving)"

text \<open>
  \<^verbatim>\<open>_resolveBasicCollision(moving, group)\<close>: the list \<^verbatim>\<open>hits\<close> is computed once, from the
  mover's rectangle before the loop; the loop then works on the mover as the earlier
  iterations left it.
\<close>

definition resolveBasicCollision :: "player \<Rightarrow> 'a entity_scheme list \<Rightarrow> player" where
  "resolveBasicCollision moving grp = foldl resolve_hit moving (spritecollide moving grp)"

section \<open>The category resolvers\<close>

definition resolveWallCollisions :: "scene \<Rightarrow> scene" where
  "resolveWallCollisions sc =
     sc\<lparr>players := map (\<lambda>p. resolveBasicCollision p (walls sc)) (players sc)\<rparr>"

definition resolveSPlatformCollisions :: "scene \<Rightarrow> scene" where
  "resolveSPlatformCollisions sc =
     sc\<lparr>players := map (\<lambda>p. resolveBasicCollision p (sPlatforms sc)) (players sc)\<rparr>"

text \<open>The body of the inner loop of \<^verbatim>\<open>resolveDPlatformCollisions\<close>, for one platform.\<close>

definition dplatform_hit :: "player \<Rightarrow> 'a entity_scheme \<Rightarrow> player" where
  "dplatform_hit p platform =
     (if checkCollisionDirection (rect p) (rect platform) = Some Bottom then
        (let tol = \<bar>rect_bottom (rect p) - rect_top (rect platform)\<bar> in
         if tol < 30 then
           (let p1 = p\<lparr>rect := set_bottom (rect_top (rect platform)) (rect p),
                        isOnGround := True\<rparr>
            in if velocity_y (physics p1) > 0
               then p1\<lparr>physics := (physics p1)\<lparr>velocity_y := 0\<rparr>\<rparr>
               else p1)
         else p)
      else p)"

definition resolveDPlatformCollisions :: "scene \<Rightarrow> scene" where
  "resolveDPlatformCollisions sc =
     sc\<lparr>players := map (\<lambda>p. foldl dplatform_hit p (spritecollide p (dPlatforms sc)))
                        (players sc)\<rparr>"

text \<open>
  \<^verbatim>\<open>resolveMPlatformCollisions\<close>: \<^verbatim>\<open>hits\<close> is taken before the Basic Resolver moves the
  player; every platform of \<^verbatim>\<open>hits\<close> then adds its displacement.
\<close>

definition carry :: "player \<Rightarrow> mplatform \<Rightarrow> player" where
  "carry p platform =
     addDisplacementY ''platform'' (dy platform) (addDisplacementX ''platform'' (dx platform) p)"

definition resolveMPlatformCollisions :: "scene \<Rightarrow> scene" where
  "resolveMPlatformCollisions sc =
     sc\<lparr>players :=
          map (\<lambda>p. let hits = spritecollide p (mPlatforms sc);
                       p1 = resolveBasicCollision p (mPlatforms sc)
                   in foldl carry p1 hits)
              (players sc)\<rparr>"

text \<open>The body of the inner loop of \<^verbatim>\<open>resolveSwitchCollisions\<close>, for one player.\<close>

definition touch_switch :: "switch \<Rightarrow> player \<Rightarrow> switch" where
  "touch_switch s p =
     (if collide_rect p s then
        (if velocity_x (physics p) \<noteq> 0 \<or> velocity_y (physics p) \<noteq> 0 then turnOff s else s)
      else s)"

definition resolveSwitchCollisions :: "scene \<Rightarrow> scene" where
  "resolveSwitchCollisions sc =
     sc\<lparr>switches := map (\<lambda>s. if isOn s then foldl touch_switch s (players sc) else s)
                         (switches sc)\<rparr>"

definition resolveDoorCollisions :: "CollisionEngine \<Rightarrow> CollisionEngine" where
  "resolveDoorCollisions e =
     foldl (\<lambda>e1 p.
              let hits = spritecollide p (doors (scene e1));
                  doorsClosed = filter isClosed (doors (scene e1))
              in if hits \<noteq> [] \<and> doorsClosed = [] then messageScene Complete e1 else e1)
           e (players (scene e))"

definition resolveSpikeCollisions :: "CollisionEngine \<Rightarrow> CollisionEngine" where
  "resolveSpikeCollisions e =
     foldl (\<lambda>e1 p.
              let hits = spritecollide p (spikes (scene e1))
              in if hits \<noteq> [] then messageScene (Death (num p)) e1 else e1)
           e (players (scene e))"

definition resolveBossCollisions :: "CollisionEngine \<Rightarrow> CollisionEngine" where
  "resolveBossCollisions e =
     foldl (\<lambda>e1 p.
              let hits = spritecollide p (bosses (scene e1))
              in if hits \<noteq> [] then messageScene (Death (num p)) e1 else e1)
           e (players (scene e))"

text \<open>
  \<^verbatim>\<open>w, h = self.scene.rect.size\<close> and \<^verbatim>\<open>boundary = pg.Rect(-1000, -1000, w+2000, h+2000)\<close>:
  the sums are Python integers, the constructor stores them as C integers.
\<close>

definition boundary :: "rect \<Rightarrow> rect" where
  "boundary sr =
     (case rect_size sr of (w, h) \<Rightarrow> pg_Rect (- 1000) (- 1000) (w + 2000) (h + 2000))"

definition resolveBoundaryCollision :: "CollisionEngine \<Rightarrow> CollisionEngine" where
  "resolveBoundaryCollision e =
     foldl (\<lambda>e1 p.
              if \<not> contains (boundary (scene_rect (scene e))) (rect p)
              then messageScene (Death (num p)) e1 else e1)
           e (players (scene e))"

section \<open>The inter-player explosion and the event handler\<close>

text \<open>
  \<^verbatim>\<open>p1, p2 = self.scene.players\<close> raises \<^verbatim>\<open>ValueError\<close> unless there are exactly two
  players; the handler \<^verbatim>\<open>except ValueError: pass\<close> then leaves everything as it is.
\<close>

definition resolvePlayerCollisions :: "real \<Rightarrow> scene \<Rightarrow> scene" where
  "resolvePlayerCollisions explosionSpeed sc =
     (case players sc of
        [p1, p2] \<Rightarrow>
          (if collide_rect p1 p2 then
             (let p1a = addVelocityY ''collision'' (- explosionSpeed) p1;
                  p2a = addVelocityY ''collision'' (- explosionSpeed) p2
              in if rx (rect p2a) > rx (rect p1a)
                 then sc\<lparr>players := [addVelocityX ''collision'' (- explosionSpeed) p1a,
                                      addVelocityX ''collision'' explosionSpeed p2a]\<rparr>
                 else sc\<lparr>players := [addVelocityX ''collision'' explosionSpeed p1a,
                                      addVelocityX ''collision'' (- explosionSpeed) p2a]\<rparr>)
           else sc)
      | _ \<Rightarrow> sc)"

text \<open>
  A pygame event: a key press with its key code, or any other event. A missing
  \<^verbatim>\<open>"coop_jump"\<close> binding raises \<^verbatim>\<open>KeyError\<close>, which the handler does not catch.
\<close>

datatype event = KEYDOWN int | OtherEvent

datatype error = KeyError

definition K_RETURN :: int where
  "K_RETURN = 13"

definition eventHandler :: "event \<Rightarrow> CollisionEngine \<Rightarrow> error + CollisionEngine" where
  "eventHandler ev e =
     (case ev of
        KEYDOWN k \<Rightarrow>
          (let e1 = (if k = K_RETURN then resolveDoorCollisions e else e) in
           case players (scene e1) of
             [p1, p2] \<Rightarrow>
               (case keybinds p1 ''coop_jump'' of
                  None \<Rightarrow> Inl KeyError
                | Some p1Jump \<Rightarrow>
                    (case keybinds p2 ''coop_jump'' of
                       None \<Rightarrow> Inl KeyError
                     | Some p2Jump \<Rightarrow>
                         if k = p1Jump \<or> k = p2Jump
                         then Inr (e1\<lparr>scene := resolvePlayerCollisions 30 (scene e1),
                                      audio_state := ''explosion''\<rparr>)
                         else Inr e1))
           | _ \<Rightarrow> Inr e1)
      | OtherEvent \<Rightarrow> Inr e)"

section \<open>The per-tick pass\<close>

text \<open>
  \<^verbatim>\<open>update\<close> runs the resolvers in the order of the source and then \<^verbatim>\<open>audio.update()\<close>,
  here the parameter \<open>audio_update\<close> on the audio state.
\<close>

definition on_scene :: "(scene \<Rightarrow> scene) \<Rightarrow> CollisionEngine \<Rightarrow> CollisionEngine" where
  "on_scene f e = e\<lparr>scene := f (scene e)\<rparr>"

definition update :: "(string \<Rightarrow> string) \<Rightarrow> CollisionEngine \<Rightarrow> CollisionEngine" where
  "update audio_update e =
     (let e1 = on_scene resolveWallCollisions e;
          e2 = on_scene resolveSwitchCollisions e1;
          e3 = on_scene resolveSPlatformCollisions e2;
          e4 = on_scene resolveDPlatformCollisions e3;
          e5 = on_scene resolveMPlatformCollisions e4;
          e6 = resolveSpikeCollisions e5;
          e7 = resolveBossCollisions e6;
          e8 = resolveBoundaryCollision e7
      in e8\<lparr>audio_state := audio_update (audio_state e8)\<rparr>)"

section \<open>Auxiliary definitions for the proofs\<close>



text \<open>Concrete players and obstacles for the examples.\<close>

definition example_player :: "rect \<Rightarrow> real \<Rightarrow> real \<Rightarrow> int \<Rightarrow> player" where
  "example_player r vx vy n =
     \<lparr>rect = r, physics = \<lparr>velocity_x = vx, velocity_y = vy, requests = []\<rparr>,
      isOnGround = False, num = n, keybinds = [''coop_jump'' \<mapsto> 32 + n]\<rparr>"

definition example_entity :: "rect \<Rightarrow> entity" where
  "example_entity r = \<lparr>rect = r\<rparr>"


definition example_scene :: "player list \<Rightarrow> entity list \<Rightarrow> scene" where
  "example_scene ps ws =
     \<lparr>players = ps, walls = ws, sPlatforms = [], dPlatforms = [], mPlatforms = [],
      switches = [], doors = [], spikes = [], bosses = [], scene_rect = Rect 0 0 800 600\<rparr>"

definition example_engine :: "scene \<Rightarrow> CollisionEngine" where
  "example_engine sc = \<lparr>scene = sc, audio_state = [], messages = []\<rparr>"

text \<open>The widths and heights of the rectangles of a scene, category by category.\<close>

definition sizes :: "'a entity_scheme list \<Rightarrow> (int \<times> int) list" where
  "sizes es = map (\<lambda>e. rect_size (rect e)) es"

definition scene_sizes :: "scene \<Rightarrow>
    ((int \<times> int) list \<times> (int \<times> int) list \<times> (int \<times> int) list \<times> (int \<times> int) list \<times>
     (int \<times> int) list) \<times>
    ((int \<times> int) list \<times> (int \<times> int) list \<times> (int \<times> int) list \<times> (int \<times> int) list \<times>
     (int \<times> int))" where
  "scene_sizes sc =
     ((sizes (players sc), sizes (walls sc), sizes (sPlatforms sc), sizes (dPlatforms sc),
       sizes (mPlatforms sc)),
      (sizes (switches sc), sizes (doors sc), sizes (spikes sc), sizes (bosses sc),
       rect_size (scene_rect sc)))"

section \<open>The angle functions in radians\<close>

text \<open>
  Off the x axis \<open>atan2 y x\<close> is a quarter turn minus or plus \<open>arctan (x / y)\<close>, in one
  formula for each half plane; this form is monotone in \<open>x / y\<close> and needs no case
  distinction on the sign of \<open>x\<close>.
\<close>

lemma arctan_swap:
  fixes x y :: real
  assumes "x \<noteq> 0" "y \<noteq> 0"
  shows "arctan (x / y) = sgn y * sgn x * pi / 2 - arctan (y / x)"
  using arctan_inverse [of "y / x"] assms by simp

lemma atan2_pos_y:
  assumes y: "0 < y"
  shows "atan2 y x = pi / 2 - arctan (x / y)"
proof -
  consider "0 < x" | "x < 0" | "x = 0" by linarith
  then show ?thesis
  proof cases
    case 1
    then show ?thesis using y arctan_swap [of x y] by (simp add: atan2_def)
  next
    case 2
    then show ?thesis using y arctan_swap [of x y] by (simp add: atan2_def)
  next
    case 3
    then show ?thesis using y by (simp add: atan2_def)
  qed
qed

lemma atan2_neg_y:
  assumes y: "y < 0"
  shows "atan2 y x = - (pi / 2) - arctan (x / y)"
proof -
  consider "0 < x" | "x < 0" | "x = 0" by linarith
  then show ?thesis
  proof cases
    case 1
    then show ?thesis using y arctan_swap [of x y] by (simp add: atan2_def)
  next
    case 2
    then show ?thesis using y arctan_swap [of x y] by (simp add: atan2_def)
  next
    case 3
    then show ?thesis using y by (simp add: atan2_def)
  qed
qed

lemma atan2_zero_y: "atan2 0 x = (if x < 0 then pi else 0)"
  by (simp add: atan2_def)

lemma atan2_range: "- pi < atan2 y x \<and> atan2 y x \<le> pi"
proof -
  have b: "- (pi / 2) < arctan (x / y)" "arctan (x / y) < pi / 2"
    by (rule arctan_lbound, rule arctan_ubound)
  consider "0 < y" | "y < 0" | "y = 0" by linarith
  then show ?thesis
  proof cases
    case 1 then show ?thesis using b by (simp add: atan2_pos_y)
  next
    case 2 then show ?thesis using b by (simp add: atan2_neg_y)
  next
    case 3 then show ?thesis by (simp add: atan2_zero_y)
  qed
qed








text \<open>The origin spoke \<open>(a, b)\<close> with \<open>0 \<le> a\<close> and \<open>0 < b\<close> points at \<open>pi / 2 - arctan (a / b)\<close>.\<close>









section \<open>The four sectors\<close>































section \<open>The classifier on rectangles\<close>










section \<open>Facts about the Basic Resolver\<close>








section \<open>Rectangle sizes under the resolvers\<close>

lemma rect_size_set:
  "rect_size (set_bottom v r) = rect_size r" "rect_size (set_left v r) = rect_size r"
  "rect_size (set_top v r) = rect_size r" "rect_size (set_right v r) = rect_size r"
  by (simp_all add: rect_size_def set_bottom_def set_left_def set_top_def set_right_def)

lemma resolve_hit_size: "rect_size (rect (resolve_hit p w)) = rect_size (rect p)"
  by (simp add: resolve_hit_def rect_size_set split: option.splits side.splits)

lemma foldl_size:
  assumes "\<And>p w. rect_size (rect (f p w)) = rect_size (rect p)"
  shows "rect_size (rect (foldl f p ws)) = rect_size (rect p)"
  using assms by (induction ws arbitrary: p) simp_all

lemma resolveBasicCollision_size:
  "rect_size (rect (resolveBasicCollision p ws)) = rect_size (rect p)"
  unfolding resolveBasicCollision_def by (rule foldl_size) (rule resolve_hit_size)

lemma dplatform_hit_size: "rect_size (rect (dplatform_hit p w)) = rect_size (rect p)"
  by (simp add: dplatform_hit_def Let_def rect_size_set)

lemma carry_size: "rect_size (rect (carry p w)) = rect_size (rect p)"
  by (simp add: carry_def addDisplacementX_def addDisplacementY_def)

lemma sizes_map:
  assumes "\<And>p. rect_size (rect (f p)) = rect_size (rect p)"
  shows "sizes (map f ps) = sizes ps"
  using assms by (simp add: sizes_def)

lemma resolveWallCollisions_sizes:
  "scene_sizes (resolveWallCollisions sc) = scene_sizes sc"
  by (simp add: resolveWallCollisions_def scene_sizes_def sizes_map resolveBasicCollision_size)

lemma resolveSPlatformCollisions_sizes:
  "scene_sizes (resolveSPlatformCollisions sc) = scene_sizes sc"
  by (simp add: resolveSPlatformCollisions_def scene_sizes_def sizes_map
      resolveBasicCollision_size)

lemma resolveDPlatformCollisions_sizes:
  "scene_sizes (resolveDPlatformCollisions sc) = scene_sizes sc"
  by (simp add: resolveDPlatformCollisions_def scene_sizes_def sizes_map foldl_size
      dplatform_hit_size)

lemma resolveMPlatformCollisions_sizes:
  "scene_sizes (resolveMPlatformCollisions sc) = scene_sizes sc"
  by (simp add: resolveMPlatformCollisions_def scene_sizes_def sizes_map foldl_size
      carry_size resolveBasicCollision_size Let_def)

lemma touch_switch_rect: "rect (touch_switch s p) = rect s"
  by (simp add: touch_switch_def turnOff_def)

lemma foldl_touch_switch_rect: "rect (foldl touch_switch s ps) = rect s"
  by (induction ps arbitrary: s) (simp_all add: touch_switch_rect)

lemma resolveSwitchCollisions_sizes:
  "scene_sizes (resolveSwitchCollisions sc) = scene_sizes sc"
  by (simp add: resolveSwitchCollisions_def scene_sizes_def sizes_def foldl_touch_switch_rect)

lemma resolvePlayerCollisions_sizes:
  "scene_sizes (resolvePlayerCollisions a sc) = scene_sizes sc"
proof -
  have "sizes (players (resolvePlayerCollisions a sc)) = sizes (players sc)"
    by (simp add: resolvePlayerCollisions_def sizes_def addVelocityX_def addVelocityY_def
        Let_def split: list.splits)
  moreover have "walls (resolvePlayerCollisions a sc) = walls sc"
    "sPlatforms (resolvePlayerCollisions a sc) = sPlatforms sc"
    "dPlatforms (resolvePlayerCollisions a sc) = dPlatforms sc"
    "mPlatforms (resolvePlayerCollisions a sc) = mPlatforms sc"
    "switches (resolvePlayerCollisions a sc) = switches sc"
    "doors (resolvePlayerCollisions a sc) = doors sc"
    "spikes (resolvePlayerCollisions a sc) = spikes sc"
    "bosses (resolvePlayerCollisions a sc) = bosses sc"
    "scene_rect (resolvePlayerCollisions a sc) = scene_rect sc"
    by (simp_all add: resolvePlayerCollisions_def Let_def split: list.splits)
  ultimately show ?thesis by (simp add: scene_sizes_def)
qed

text \<open>The resolvers that only send messages leave the scene as it is.\<close>

lemma foldl_scene:
  assumes "\<And>e1 p. scene (f e1 p) = scene e1"
  shows "scene (foldl f e ps) = scene e"
  using assms by (induction ps arbitrary: e) simp_all

lemma messageScene_scene: "scene (messageScene msg e) = scene e"
  by (simp add: messageScene_def)

lemma resolveDoorCollisions_scene: "scene (resolveDoorCollisions e) = scene e"
  unfolding resolveDoorCollisions_def by (rule foldl_scene) (simp add: Let_def messageScene_scene)

lemma resolveSpikeCollisions_scene: "scene (resolveSpikeCollisions e) = scene e"
  unfolding resolveSpikeCollisions_def by (rule foldl_scene) (simp add: Let_def messageScene_scene)

lemma resolveBossCollisions_scene: "scene (resolveBossCollisions e) = scene e"
  unfolding resolveBossCollisions_def by (rule foldl_scene) (simp add: Let_def messageScene_scene)

lemma resolveBoundaryCollision_scene: "scene (resolveBoundaryCollision e) = scene e"
  unfolding resolveBoundaryCollision_def by (rule foldl_scene) (simp add: messageScene_scene)

lemma update_sizes: "scene_sizes (scene (update au e)) = scene_sizes (scene e)"
  by (simp add: update_def Let_def on_scene_def resolveBoundaryCollision_scene
      resolveBossCollisions_scene resolveSpikeCollisions_scene resolveMPlatformCollisions_sizes
      resolveDPlatformCollisions_sizes resolveSPlatformCollisions_sizes
      resolveSwitchCollisions_sizes resolveWallCollisions_sizes)

lemma eventHandler_sizes:
  assumes "eventHandler ev e = Inr e'"
  shows "scene_sizes (scene e') = scene_sizes (scene e)"
proof (cases ev)
  case OtherEvent
  then show ?thesis using assms by (simp add: eventHandler_def)
next
  case (KEYDOWN k)
  define e1 where "e1 = (if k = K_RETURN then resolveDoorCollisions e else e)"
  have s1: "scene e1 = scene e" by (simp add: e1_def resolveDoorCollisions_scene)
  have "e' = e1 \<or> e' = e1\<lparr>scene := resolvePlayerCollisions 30 (scene e1),
      audio_state := ''explosion''\<rparr>"
    using assms KEYDOWN
    by (auto simp add: eventHandler_def Let_def e1_def split: list.splits option.splits if_splits)
  then show ?thesis using s1 by (auto simp add: resolvePlayerCollisions_sizes)
qed

section \<open>Facts about the category resolvers\<close>




text \<open>The boundary rectangle, without and with wrap-around.\<close>

lemma c_int_fits: "fits_c_int n \<Longrightarrow> c_int n = n"
  by (simp add: c_int_def fits_c_int_def)

lemma boundary_fits:
  assumes "fits_c_int (rw sr + 2000)" "fits_c_int (rh sr + 2000)"
  shows "boundary sr = Rect (- 1000) (- 1000) (rw sr + 2000) (rh sr + 2000)"
proof -
  have "c_int (- 1000) = - 1000" by (simp add: c_int_def)
  then show ?thesis
    using assms by (simp add: boundary_def rect_size_def pg_Rect_def c_int_fits)
qed

lemma boundary_wraps_example:
  "boundary (Rect 0 0 2147483647 600) = Rect (- 1000) (- 1000) (- 2147481649) 2600"
  "\<not> contains (boundary (Rect 0 0 2147483647 600)) (Rect 0 0 10 10)"
  by (simp_all add: boundary_def rect_size_def pg_Rect_def c_int_def contains_def Rect_def)

lemma foldl_messages:
  "messages (foldl (\<lambda>e1 p. if c p then messageScene (m p) e1 else e1) e ps)
     = messages e @ map m (filter c ps)"
  by (induction ps arbitrary: e) (simp_all add: messageScene_def)

lemma foldl_audio_state:
  assumes "\<And>e1 p. audio_state (f e1 p) = audio_state e1"
  shows "audio_state (foldl f e ps) = audio_state e"
  using assms by (induction ps arbitrary: e) simp_all

lemma messageScene_audio_state: "audio_state (messageScene msg e) = audio_state e"
  by (simp add: messageScene_def)



section \<open>Concrete classifications\<close>








section \<open>The claims\<close>














text \<open>
  C6. For a scene rectangle of non-negative width and height \<open>(w, h)\<close>, both below
  \<open>2147483648 - 2000\<close> so that the constructor stores \<open>w + 2000\<close> and \<open>h + 2000\<close>
  unchanged, and players whose right and bottom edges fit in a C integer:
  \<open>resolveBoundaryCollision\<close> builds the rectangle at \<open>(-1000, -1000)\<close> of size
  \<open>(w + 2000, h + 2000)\<close> from the size of the scene's rectangle; this is the scene's
  rectangle grown by 1000 on each side when that rectangle has its top-left corner at the
  origin. It changes nothing but the messages, and it sends one death message, with the
  player's number, for every player whose rectangle that rectangle does not contain, in
  the order of the players. (For a larger size the stored width or height wraps around,
  lemma \<open>boundary_wraps_example\<close>.)
\<close>

theorem boundary_death:
  assumes "0 \<le> rw (scene_rect (scene e))" "rw (scene_rect (scene e)) < 2147483648 - 2000"
    and "0 \<le> rh (scene_rect (scene e))" "rh (scene_rect (scene e)) < 2147483648 - 2000"
    and "\<forall>p \<in> set (players (scene e)).
           fits_c_int (rx (rect p) + rw (rect p)) \<and> fits_c_int (ry (rect p) + rh (rect p))"
  shows
  "boundary (scene_rect (scene e))
     = Rect (- 1000) (- 1000) (rw (scene_rect (scene e)) + 2000)
         (rh (scene_rect (scene e)) + 2000) \<and>
   (rx (scene_rect (scene e)) = 0 \<and> ry (scene_rect (scene e)) = 0
      \<longrightarrow> boundary (scene_rect (scene e))
            = Rect (rx (scene_rect (scene e)) - 1000) (ry (scene_rect (scene e)) - 1000)
                (rw (scene_rect (scene e)) + 2000) (rh (scene_rect (scene e)) + 2000)) \<and>
   scene (resolveBoundaryCollision e) = scene e \<and>
   audio_state (resolveBoundaryCollision e) = audio_state e \<and>
   messages (resolveBoundaryCollision e)
     = messages e @
       map (\<lambda>p. Death (num p))
         (filter (\<lambda>p. \<not> contains
                     (Rect (- 1000) (- 1000) (rw (scene_rect (scene e)) + 2000)
                        (rh (scene_rect (scene e)) + 2000)) (rect p))
            (players (scene e)))"
proof -
  have f: "fits_c_int (rw (scene_rect (scene e)) + 2000)"
    "fits_c_int (rh (scene_rect (scene e)) + 2000)"
    using assms(1-4) by (simp_all add: fits_c_int_def)
  have b: "boundary (scene_rect (scene e))
     = Rect (- 1000) (- 1000) (rw (scene_rect (scene e)) + 2000)
         (rh (scene_rect (scene e)) + 2000)"
    using f by (rule boundary_fits)
  have a: "audio_state (resolveBoundaryCollision e) = audio_state e"
    unfolding resolveBoundaryCollision_def
    by (rule foldl_audio_state) (simp add: messageScene_audio_state)
  have m: "messages (resolveBoundaryCollision e)
     = messages e @
       map (\<lambda>p. Death (num p))
         (filter (\<lambda>p. \<not> contains (boundary (scene_rect (scene e))) (rect p))
            (players (scene e)))"
    unfolding resolveBoundaryCollision_def by (rule foldl_messages)
  show ?thesis using a m by (simp add: b resolveBoundaryCollision_scene)
qed

text \<open>
  An 800 by 600 scene at the origin: a player inside survives, a player sticking out of
  the bottom margin and a player far to the right die.
\<close>

theorem boundary_death_witness:
  "boundary (Rect 0 0 800 600) = Rect (0 - 1000) (0 - 1000) (800 + 2000) (600 + 2000) \<and>
   messages (resolveBoundaryCollision
     (example_engine (example_scene [example_player (Rect 0 0 10 10) 0 0 1,
                                     example_player (Rect 400 1595 10 10) 0 9 2,
                                     example_player (Rect 5000 0 10 10) 0 0 3] [])))
   = [Death 2, Death 3]"
proof -
  let ?E = "example_engine (example_scene [example_player (Rect 0 0 10 10) 0 0 1,
                                     example_player (Rect 400 1595 10 10) 0 9 2,
                                     example_player (Rect 5000 0 10 10) 0 0 3] [])"
  have size: "0 \<le> rw (scene_rect (scene ?E))" "rw (scene_rect (scene ?E)) < 2147483648 - 2000"
    "0 \<le> rh (scene_rect (scene ?E))" "rh (scene_rect (scene ?E)) < 2147483648 - 2000"
    by (simp_all add: example_engine_def example_scene_def Rect_def)
  have edges: "\<forall>p \<in> set (players (scene ?E)).
      fits_c_int (rx (rect p) + rw (rect p)) \<and> fits_c_int (ry (rect p) + rh (rect p))"
    by (simp add: example_engine_def example_scene_def example_player_def Rect_def
        fits_c_int_def)
  show ?thesis
    using boundary_death [OF size edges]
    by (simp add: example_engine_def example_scene_def example_player_def contains_def Rect_def)
qed

text \<open>
  C6 as written grows the scene's own rectangle. For a scene rectangle at \<open>x = 5000\<close>, a
  player inside the scene, and so inside the scene grown by 1000 on each side, is reported
  dead.
\<close>

theorem boundary_death_counterexample:
  "contains (Rect 5000 0 100 100) (Rect 5010 10 10 10) \<and>
   contains (Rect (5000 - 1000) (0 - 1000) (100 + 2000) (100 + 2000)) (Rect 5010 10 10 10) \<and>
   messages (resolveBoundaryCollision
     (example_engine ((example_scene [example_player (Rect 5010 10 10 10) 0 0 1] [])
        \<lparr>scene_rect := Rect 5000 0 100 100\<rparr>)))
   = [Death 1]"
  by (simp add: resolveBoundaryCollision_def boundary_def rect_size_def messageScene_def
      pg_Rect_def c_int_def example_engine_def example_scene_def example_player_def
      contains_def Rect_def)






text \<open>
  C9. Every operation of the engine preserves the width and height of every rectangle
  of the scene: the per-tick pass \<open>update\<close> (whatever the audio component's update does),
  the event handler whenever it returns, each category resolver on its own, the
  inter-player explosion and the Basic Resolver only move rectangles and change
  velocities, requests, flags and messages; no rectangle of a player or of an obstacle is
  resized.
\<close>

theorem engine_preserves_sizes:
  "scene_sizes (scene (update audio_update e)) = scene_sizes (scene e) \<and>
   (eventHandler ev e = Inr e' \<longrightarrow> scene_sizes (scene e') = scene_sizes (scene e)) \<and>
   scene_sizes (resolveWallCollisions sc) = scene_sizes sc \<and>
   scene_sizes (resolveSwitchCollisions sc) = scene_sizes sc \<and>
   scene_sizes (resolveSPlatformCollisions sc) = scene_sizes sc \<and>
   scene_sizes (resolveDPlatformCollisions sc) = scene_sizes sc \<and>
   scene_sizes (resolveMPlatformCollisions sc) = scene_sizes sc \<and>
   scene_sizes (resolvePlayerCollisions explosionSpeed sc) = scene_sizes sc \<and>
   scene (resolveDoorCollisions e) = scene e \<and>
   scene (resolveSpikeCollisions e) = scene e \<and>
   scene (resolveBossCollisions e) = scene e \<and>
   scene (resolveBoundaryCollision e) = scene e \<and>
   rect_size (rect (resolveBasicCollision p ws)) = rect_size (rect p)"
proof -
  have "eventHandler ev e = Inr e' \<longrightarrow> scene_sizes (scene e') = scene_sizes (scene e)"
    using eventHandler_sizes by blast
  then show ?thesis
    by (simp add: update_sizes resolveWallCollisions_sizes resolveSwitchCollisions_sizes
        resolveSPlatformCollisions_sizes resolveDPlatformCollisions_sizes
        resolveMPlatformCollisions_sizes resolvePlayerCollisions_sizes
        resolveDoorCollisions_scene resolveSpikeCollisions_scene resolveBossCollisions_scene
        resolveBoundaryCollision_scene resolveBasicCollision_size)
qed

text \<open>
  A scene with one player: a key press that is not the confirm key returns the engine
  unchanged, and the sizes after it and after a tick are those before.
\<close>

theorem engine_preserves_sizes_witness:
  "eventHandler (KEYDOWN 33)
     (example_engine (example_scene [example_player (Rect 8 0 10 10) 3 0 1]
        [example_entity (Rect 0 0 10 10)]))
   = Inr (example_engine (example_scene [example_player (Rect 8 0 10 10) 3 0 1]
        [example_entity (Rect 0 0 10 10)])) \<and>
   scene_sizes (scene (update (\<lambda>s. s)
     (example_engine (example_scene [example_player (Rect 8 0 10 10) 3 0 1]
        [example_entity (Rect 0 0 10 10)]))))
   = scene_sizes (example_scene [example_player (Rect 8 0 10 10) 3 0 1]
        [example_entity (Rect 0 0 10 10)])"
proof -
  let ?E = "example_engine (example_scene [example_player (Rect 8 0 10 10) 3 0 1]
        [example_entity (Rect 0 0 10 10)])"
  have h: "eventHandler (KEYDOWN 33) ?E = Inr ?E"
    by (simp add: eventHandler_def K_RETURN_def example_engine_def example_scene_def)
  have s: "scene ?E = example_scene [example_player (Rect 8 0 10 10) 3 0 1]
        [example_entity (Rect 0 0 10 10)]"
    by (simp add: example_engine_def)
  show ?thesis
    using h engine_preserves_sizes [of "\<lambda>s. s" ?E "KEYDOWN 33" ?E "scene ?E" 30
        "example_player (Rect 8 0 10 10) 3 0 1" "[example_entity (Rect 0 0 10 10)]"]
    by (simp add: s)
qed




end
